theory Spec2Isabelle
  imports Complex_Main "HOL-Library.Multiset"
begin

section \<open>Data model: pandas frames, cells and Python errors\<close>

text \<open>
  The journal generator of \<^verbatim>\<open>auto1.py\<close> works on pandas frames. A frame is modelled
  by its column labels and its rows; a row is the list of its cells, aligned with the
  labels. A cell is a string, a number or the missing-value marker \<^verbatim>\<open>NaN\<close> that an
  outer join and an empty field of a data file produce. Numbers are exact rationals:
  Python's integers and the finite binary floats are rationals, and the rounding of
  float arithmetic is not modelled.
\<close>

datatype cell = Str string | Num rat | NaN

datatype error = KeyError string | TypeError | ValueError string | OtherError string

record dataframe =
  columns :: "string list"
  rows :: "cell list list"

text \<open>Sequencing of statements that may raise: the first exception wins.\<close>

definition ebind :: "error + 'a \<Rightarrow> ('a \<Rightarrow> error + 'b) \<Rightarrow> error + 'b" where
  "ebind m f = (case m of Inl e \<Rightarrow> Inl e | Inr x \<Rightarrow> f x)"

text \<open>
  A row handed out by \<^verbatim>\<open>iterrows()\<close> is a series indexed by the column labels.
  \<^verbatim>\<open>row.get(name, default)\<close> falls back to the default, \<^verbatim>\<open>row[name]\<close> raises
  \<^verbatim>\<open>KeyError\<close>.
\<close>

definition row_get :: "string list \<Rightarrow> cell list \<Rightarrow> string \<Rightarrow> cell option" where
  "row_get cols r name = map_of (zip cols r) name"

definition series_get :: "string list \<Rightarrow> cell list \<Rightarrow> string \<Rightarrow> cell \<Rightarrow> cell" where
  "series_get cols r name dflt = (case row_get cols r name of Some v \<Rightarrow> v | None \<Rightarrow> dflt)"

definition series_item :: "string list \<Rightarrow> cell list \<Rightarrow> string \<Rightarrow> error + cell" where
  "series_item cols r name =
     (case row_get cols r name of Some v \<Rightarrow> Inr v | None \<Rightarrow> Inl (KeyError name))"

text \<open>
  Python's comparisons with zero, \<^verbatim>\<open>abs\<close> and string formatting on a cell. Comparing
  a string with a number raises \<^verbatim>\<open>TypeError\<close>, every ordering comparison with
  \<^verbatim>\<open>NaN\<close> is false, and \<^verbatim>\<open>NaN != 0\<close> is true. How Python prints a number is
  a parameter \<open>fmt\<close> of the model.
\<close>

fun py_gt0 :: "cell \<Rightarrow> error + bool" where
  "py_gt0 (Num q) = Inr (q > 0)"
| "py_gt0 NaN = Inr False"
| "py_gt0 (Str s) = Inl TypeError"

fun py_lt0 :: "cell \<Rightarrow> error + bool" where
  "py_lt0 (Num q) = Inr (q < 0)"
| "py_lt0 NaN = Inr False"
| "py_lt0 (Str s) = Inl TypeError"

fun py_ne0 :: "cell \<Rightarrow> bool" where
  "py_ne0 (Num q) = (q \<noteq> 0)"
| "py_ne0 NaN = True"
| "py_ne0 (Str s) = True"

fun py_abs :: "cell \<Rightarrow> error + cell" where
  "py_abs (Num q) = Inr (Num \<bar>q\<bar>)"
| "py_abs NaN = Inr NaN"
| "py_abs (Str s) = Inl TypeError"

fun py_format :: "(rat \<Rightarrow> string) \<Rightarrow> cell \<Rightarrow> string" where
  "py_format fmt (Str s) = s"
| "py_format fmt (Num q) = fmt q"
| "py_format fmt NaN = ''nan''"

section \<open>The journal entry builder\<close>

record journal_entry =
  date :: string
  security_id :: cell
  account :: cell
  debit_account :: string
  credit_account :: string
  quantity :: cell
  amount :: cell
  description :: string

definition SecuritiesBorrowed :: string where
  "SecuritiesBorrowed = ''Securities Borrowed''"

definition PayableForSecurities :: string where
  "PayableForSecurities = ''Payable for Securities''"

text \<open>
  The body of the loop of \<^verbatim>\<open>generate_journal_entries\<close> on one row: the entry it
  appends, if any, or the exception it raises.
\<close>

definition journal_row ::
  "(rat \<Rightarrow> string) \<Rightarrow> string \<Rightarrow> string list \<Rightarrow> cell list \<Rightarrow> error + journal_entry option" where
  "journal_row fmt d cols r =
     (let sid = series_get cols r ''security_id''
                  (series_get cols r ''security_id_current'' (Str ''UNKNOWN''));
          acc = series_get cols r ''account''
                  (series_get cols r ''account_current'' (Str ''UNKNOWN''))
      in ebind (series_item cols r ''quantity_change'') (\<lambda>quantity_change.
         ebind (series_item cols r ''value_change'') (\<lambda>value_change.
         ebind (py_gt0 quantity_change) (\<lambda>pos.
           if pos then
             ebind (py_abs quantity_change) (\<lambda>q.
             ebind (py_abs value_change) (\<lambda>a.
               Inr (Some \<lparr>date = d, security_id = sid, account = acc,
                     debit_account = SecuritiesBorrowed,
                     credit_account = PayableForSecurities,
                     quantity = q, amount = a,
                     description = ''Borrow securities '' @ py_format fmt sid\<rparr>)))
           else
             ebind (py_lt0 quantity_change) (\<lambda>neg.
               if neg then
                 ebind (py_abs quantity_change) (\<lambda>q.
                 ebind (py_abs value_change) (\<lambda>a.
                   Inr (Some \<lparr>date = d, security_id = sid, account = acc,
                         debit_account = PayableForSecurities,
                         credit_account = SecuritiesBorrowed,
                         quantity = q, amount = a,
                         description = ''Return securities '' @ py_format fmt sid\<rparr>)))
               else Inr None)))))"

text \<open>The loop over \<^verbatim>\<open>adjustments.iterrows()\<close>, with the list \<^verbatim>\<open>entries\<close> it appends to.\<close>

fun journal_loop ::
  "(rat \<Rightarrow> string) \<Rightarrow> string \<Rightarrow> string list \<Rightarrow> journal_entry list \<Rightarrow> cell list list
     \<Rightarrow> error + journal_entry list" where
  "journal_loop fmt d cols entries [] = Inr entries"
| "journal_loop fmt d cols entries (r # rs) =
     (case journal_row fmt d cols r of
        Inl e \<Rightarrow> Inl e
      | Inr None \<Rightarrow> journal_loop fmt d cols entries rs
      | Inr (Some en) \<Rightarrow> journal_loop fmt d cols (entries @ [en]) rs)"

text \<open>
  \<^verbatim>\<open>generate_journal_entries(adjustments, date=None)\<close>: the date defaults to the clock's
  \<open>today\<close>. \<open>journal_entries\<close> is the list \<^verbatim>\<open>entries\<close> at the end of the loop, and the
  function returns the frame \<^verbatim>\<open>pd.DataFrame(entries)\<close>, which has no column at all when
  the list is empty. The line that the function prints, and the objects it allocates, are
  in the model on Python objects further down.
\<close>

definition journal_entries ::
  "(rat \<Rightarrow> string) \<Rightarrow> string \<Rightarrow> dataframe \<Rightarrow> string option \<Rightarrow> error + journal_entry list" where
  "journal_entries fmt today adjustments date_arg =
     (let d = (case date_arg of None \<Rightarrow> today | Some d \<Rightarrow> d)
      in journal_loop fmt d (columns adjustments) [] (rows adjustments))"

definition entry_cells :: "journal_entry \<Rightarrow> cell list" where
  "entry_cells e = [Str (date e), security_id e, account e, Str (debit_account e),
                    Str (credit_account e), quantity e, amount e, Str (description e)]"

definition entries_frame :: "journal_entry list \<Rightarrow> dataframe" where
  "entries_frame es =
     (if es = [] then \<lparr>columns = [], rows = []\<rparr>
      else \<lparr>columns = [''date'', ''security_id'', ''account'', ''debit_account'',
                        ''credit_account'', ''quantity'', ''amount'', ''description''],
            rows = map entry_cells es\<rparr>)"

definition generate_journal_entries ::
  "(rat \<Rightarrow> string) \<Rightarrow> string \<Rightarrow> dataframe \<Rightarrow> string option \<Rightarrow> error + dataframe" where
  "generate_journal_entries fmt today adjustments date_arg =
     ebind (journal_entries fmt today adjustments date_arg) (\<lambda>es. Inr (entries_frame es))"

section \<open>The position reconciler\<close>

subsection \<open>The pandas operations it calls\<close>

text \<open>
  \<^verbatim>\<open>pd.merge(left, right, on=keys, how='outer', suffixes=(s1, s2))\<close>. A key label that
  one of the frames lacks raises \<^verbatim>\<open>KeyError\<close>. The result carries the left labels and
  then the right labels that are not keys; a label that both frames have outside the keys
  gets the suffix of its side. Every left row is paired with each right row of the same
  key, or padded with \<^verbatim>\<open>NaN\<close> when there is none; a right row whose key no left row
  has keeps its key cells and gets \<^verbatim>\<open>NaN\<close> in all other left columns. pandas then
  orders the joined rows by key; that reordering is the parameter \<open>row_order\<close> of the
  model. Labels are looked up by first match, which is what pandas does on frames whose
  labels are distinct.
\<close>

definition overlapping :: "string list \<Rightarrow> string list \<Rightarrow> string list \<Rightarrow> string \<Rightarrow> bool" where
  "overlapping keys lc rc c = (c \<notin> set keys \<and> c \<in> set lc \<and> c \<in> set rc)"

definition merged_columns ::
  "string list \<Rightarrow> string \<Rightarrow> string \<Rightarrow> string list \<Rightarrow> string list \<Rightarrow> string list" where
  "merged_columns keys s1 s2 lc rc =
     map (\<lambda>c. if overlapping keys lc rc c then c @ s1 else c) lc @
     map (\<lambda>c. if overlapping keys lc rc c then c @ s2 else c) (filter (\<lambda>c. c \<notin> set keys) rc)"

definition row_key :: "string list \<Rightarrow> string list \<Rightarrow> cell list \<Rightarrow> cell option list" where
  "row_key keys cols r = map (row_get cols r) keys"

definition nonkey_cells :: "string list \<Rightarrow> string list \<Rightarrow> cell list \<Rightarrow> cell list" where
  "nonkey_cells keys cols r = map snd (filter (\<lambda>(c, v). c \<notin> set keys) (zip cols r))"

definition left_rows_joined ::
  "string list \<Rightarrow> string list \<Rightarrow> string list \<Rightarrow> cell list list \<Rightarrow> cell list \<Rightarrow> cell list list" where
  "left_rows_joined keys lc rc rrows l =
     (let ms = filter (\<lambda>r. row_key keys rc r = row_key keys lc l) rrows
      in if ms = [] then [l @ replicate (length (filter (\<lambda>c. c \<notin> set keys) rc)) NaN]
         else map (\<lambda>r. l @ nonkey_cells keys rc r) ms)"

definition right_row_alone ::
  "string list \<Rightarrow> string list \<Rightarrow> string list \<Rightarrow> cell list \<Rightarrow> cell list" where
  "right_row_alone keys lc rc r =
     map (\<lambda>c. if c \<in> set keys then series_get rc r c NaN else NaN) lc @ nonkey_cells keys rc r"

definition outer_join_rows ::
  "string list \<Rightarrow> string list \<Rightarrow> string list \<Rightarrow> cell list list \<Rightarrow> cell list list
     \<Rightarrow> cell list list" where
  "outer_join_rows keys lc rc lrows rrows =
     concat (map (left_rows_joined keys lc rc rrows) lrows) @
     map (right_row_alone keys lc rc)
       (filter (\<lambda>r. \<forall>l \<in> set lrows. row_key keys lc l \<noteq> row_key keys rc r) rrows)"

definition pd_merge_outer ::
  "(cell list list \<Rightarrow> cell list list) \<Rightarrow> string list \<Rightarrow> string \<Rightarrow> string
     \<Rightarrow> dataframe \<Rightarrow> dataframe \<Rightarrow> error + dataframe" where
  "pd_merge_outer row_order keys s1 s2 left right =
     (case find (\<lambda>k. k \<notin> set (columns left) \<or> k \<notin> set (columns right)) keys of
        Some k \<Rightarrow> Inl (KeyError k)
      | None \<Rightarrow>
          Inr \<lparr>columns = merged_columns keys s1 s2 (columns left) (columns right),
               rows = row_order (outer_join_rows keys (columns left) (columns right)
                                   (rows left) (rows right))\<rparr>)"

text \<open>\<^verbatim>\<open>df.fillna(0)\<close>: a new frame in which every missing cell is the number 0.\<close>

definition fillna0 :: "dataframe \<Rightarrow> dataframe" where
  "fillna0 df = \<lparr>columns = columns df,
                 rows = map (map (\<lambda>c. if c = NaN then Num 0 else c)) (rows df)\<rparr>"

text \<open>\<^verbatim>\<open>df[name]\<close> reads a column and raises \<^verbatim>\<open>KeyError\<close> when there is no such label.\<close>

definition get_column :: "dataframe \<Rightarrow> string \<Rightarrow> error + cell list" where
  "get_column df name =
     (if name \<in> set (columns df)
      then Inr (map (\<lambda>r. series_get (columns df) r name NaN) (rows df))
      else Inl (KeyError name))"

text \<open>
  \<^verbatim>\<open>df[name] = values\<close> overwrites the column of that label, or appends a new last
  column when the frame has no such label.
\<close>

definition label_index :: "string list \<Rightarrow> string \<Rightarrow> nat" where
  "label_index cols name = length (takeWhile (\<lambda>c. c \<noteq> name) cols)"

definition set_column :: "dataframe \<Rightarrow> string \<Rightarrow> cell list \<Rightarrow> dataframe" where
  "set_column df name vals =
     (if name \<in> set (columns df)
      then \<lparr>columns = columns df,
            rows = map (\<lambda>(r, v). r[label_index (columns df) name := v]) (zip (rows df) vals)\<rparr>
      else \<lparr>columns = columns df @ [name],
            rows = map (\<lambda>(r, v). r @ [v]) (zip (rows df) vals)\<rparr>)"

text \<open>Subtraction of two columns, cell by cell; a string operand raises \<^verbatim>\<open>TypeError\<close>.\<close>

fun py_sub :: "cell \<Rightarrow> cell \<Rightarrow> error + cell" where
  "py_sub (Str s) y = Inl TypeError"
| "py_sub x (Str s) = Inl TypeError"
| "py_sub (Num a) (Num b) = Inr (Num (a - b))"
| "py_sub x y = Inr NaN"

fun series_sub :: "cell list \<Rightarrow> cell list \<Rightarrow> error + cell list" where
  "series_sub (x # xs) (y # ys) =
     ebind (py_sub x y) (\<lambda>d. ebind (series_sub xs ys) (\<lambda>ds. Inr (d # ds)))"
| "series_sub xs ys = Inr []"

text \<open>\<^verbatim>\<open>df[mask]\<close> keeps the rows whose mask is true.\<close>

definition mask_rows :: "dataframe \<Rightarrow> bool list \<Rightarrow> dataframe" where
  "mask_rows df keep = \<lparr>columns = columns df,
                         rows = map fst (filter snd (zip (rows df) keep))\<rparr>"

subsection \<open>The adjustments\<close>

definition join_keys :: "string list" where
  "join_keys = [''security_id'', ''account'']"

text \<open>The frame \<^verbatim>\<open>merged\<close> once both change columns are set (lines 61 to 74).\<close>

definition merged_changes ::
  "(cell list list \<Rightarrow> cell list list) \<Rightarrow> dataframe \<Rightarrow> dataframe \<Rightarrow> error + dataframe" where
  "merged_changes row_order current_positions previous_positions =
     ebind (pd_merge_outer row_order join_keys ''_current'' ''_previous''
              current_positions previous_positions) (\<lambda>joined.
     let merged = fillna0 joined in
     ebind (get_column merged ''quantity_current'') (\<lambda>qc.
     ebind (get_column merged ''quantity_previous'') (\<lambda>qp.
     ebind (series_sub qc qp) (\<lambda>dq.
     let merged = set_column merged ''quantity_change'' dq in
     ebind (get_column merged ''value_current'') (\<lambda>vc.
     ebind (get_column merged ''value_previous'') (\<lambda>vp.
     ebind (series_sub vc vp) (\<lambda>dv.
     Inr (set_column merged ''value_change'' dv))))))))"

text \<open>The mask \<^verbatim>\<open>(merged['quantity_change'] != 0) | (merged['value_change'] != 0)\<close>.\<close>

definition change_mask :: "dataframe \<Rightarrow> error + bool list" where
  "change_mask merged =
     ebind (get_column merged ''quantity_change'') (\<lambda>dq.
     ebind (get_column merged ''value_change'') (\<lambda>dv.
     Inr (map (\<lambda>(a, b). py_ne0 a \<or> py_ne0 b) (zip dq dv))))"

definition calculate_adjustments ::
  "(cell list list \<Rightarrow> cell list list) \<Rightarrow> dataframe \<Rightarrow> dataframe option \<Rightarrow> error + dataframe" where
  "calculate_adjustments row_order current_positions previous_positions =
     (case previous_positions of
        Some previous \<Rightarrow>
          ebind (merged_changes row_order current_positions previous) (\<lambda>merged.
          ebind (change_mask merged) (\<lambda>keep.
          Inr (mask_rows merged keep)))
      | None \<Rightarrow>
          ebind (get_column current_positions ''quantity'') (\<lambda>q.
          let adjustments = set_column current_positions ''quantity_change'' q in
          ebind (get_column adjustments ''value'') (\<lambda>v.
          Inr (set_column adjustments ''value_change'' v))))"

subsection \<open>The loader\<close>


section \<open>Vocabulary of the properties\<close>

subsection \<open>Change records and the entries the specification describes\<close>

text \<open>
  A row of an adjustments frame is a change record when its four fields have the types of
  the specification: two strings and two numbers. Further columns may be present.
\<close>

definition change_record :: "string list \<Rightarrow> cell list \<Rightarrow> string \<Rightarrow> string \<Rightarrow> rat \<Rightarrow> rat \<Rightarrow> bool" where
  "change_record cols r s a q v \<longleftrightarrow>
     row_get cols r ''security_id'' = Some (Str s) \<and>
     row_get cols r ''account'' = Some (Str a) \<and>
     row_get cols r ''quantity_change'' = Some (Num q) \<and>
     row_get cols r ''value_change'' = Some (Num v)"

definition change_frame :: "dataframe \<Rightarrow> bool" where
  "change_frame df \<longleftrightarrow>
     (\<forall>r \<in> set (rows df). \<exists>s a q v. change_record (columns df) r s a q v)"

text \<open>
  The entry that section 4.2 of the specification asks for a change with a non-zero
  quantity change: a borrow when the quantity change is positive, a return otherwise.
  This definition follows the specification's words, not the code.
\<close>

definition spec_entry :: "string \<Rightarrow> string \<Rightarrow> string \<Rightarrow> rat \<Rightarrow> rat \<Rightarrow> journal_entry" where
  "spec_entry d s a q v =
     (if q > 0
      then \<lparr>date = d, security_id = Str s, account = Str a,
            debit_account = SecuritiesBorrowed, credit_account = PayableForSecurities,
            quantity = Num \<bar>q\<bar>, amount = Num \<bar>v\<bar>,
            description = ''Borrow securities '' @ s\<rparr>
      else \<lparr>date = d, security_id = Str s, account = Str a,
            debit_account = PayableForSecurities, credit_account = SecuritiesBorrowed,
            quantity = Num \<bar>q\<bar>, amount = Num \<bar>v\<bar>,
            description = ''Return securities '' @ s\<rparr>)"

fun str_of :: "cell option \<Rightarrow> string" where
  "str_of (Some (Str s)) = s"
| "str_of c = []"

fun num_of :: "cell option \<Rightarrow> rat" where
  "num_of (Some (Num q)) = q"
| "num_of c = 0"

definition row_spec_entry :: "string \<Rightarrow> string list \<Rightarrow> cell list \<Rightarrow> journal_entry" where
  "row_spec_entry d cols r =
     spec_entry d (str_of (row_get cols r ''security_id'')) (str_of (row_get cols r ''account''))
       (num_of (row_get cols r ''quantity_change'')) (num_of (row_get cols r ''value_change''))"

text \<open>A small adjustments frame: a borrow, a pure revaluation and a return.\<close>

definition change_columns :: "string list" where
  "change_columns = [''security_id'', ''account'', ''quantity_change'', ''value_change'']"

definition sample_changes :: dataframe where
  "sample_changes =
     \<lparr>columns = change_columns,
      rows = [ [Str ''SEC1'', Str ''ACC1'', Num 50, Num 600],
              [Str ''SEC2'', Str ''ACC1'', Num 0, Num 500],
              [Str ''SEC3'', Str ''ACC2'', Num (- 50), Num (- 600)]]\<rparr>"

subsection \<open>Frames as rows; snapshots\<close>

text \<open>
  Assigning a column acts on each row: the cell under the label is replaced, or a new
  last cell is added. A frame is well shaped when every row has one cell per label.
\<close>

definition upd_cols :: "string list \<Rightarrow> string \<Rightarrow> string list" where
  "upd_cols cols name = (if name \<in> set cols then cols else cols @ [name])"

definition upd_row :: "string list \<Rightarrow> string \<Rightarrow> cell list \<Rightarrow> cell \<Rightarrow> cell list" where
  "upd_row cols name r v = (if name \<in> set cols then r[label_index cols name := v] else r @ [v])"

definition well_shaped :: "dataframe \<Rightarrow> bool" where
  "well_shaped df \<longleftrightarrow> (\<forall>r \<in> set (rows df). length r = length (columns df))"

definition same_but_changes :: "string list \<Rightarrow> string list \<Rightarrow> cell list \<Rightarrow> cell list \<Rightarrow> bool" where
  "same_but_changes cols cols' r r' \<longleftrightarrow>
     (\<forall>name. name \<noteq> ''quantity_change'' \<and> name \<noteq> ''value_change''
        \<longrightarrow> row_get cols' r' name = row_get cols r name)"

text \<open>Two small snapshots; the current one carries a column more than the four fields.\<close>

definition sample_current :: dataframe where
  "sample_current =
     \<lparr>columns = [''security_id'', ''security_name'', ''account'', ''quantity'', ''value''],
      rows = [ [Str ''SEC1'', Str ''One'', Str ''ACC1'', Num 100, Num 1000],
              [Str ''SEC2'', Str ''Two'', Str ''ACC1'', Num 5, Num 50],
              [Str ''SEC3'', Str ''Three'', Str ''ACC2'', Num 0, Num 0]]\<rparr>"

definition sample_previous :: dataframe where
  "sample_previous =
     \<lparr>columns = [''security_id'', ''account'', ''quantity'', ''value''],
      rows = [ [Str ''SEC1'', Str ''ACC1'', Num 60, Num 600],
              [Str ''SEC2'', Str ''ACC1'', Num 5, Num 50],
              [Str ''SEC4'', Str ''ACC2'', Num 7, Num 70]]\<rparr>"





definition rows_at :: "dataframe \<Rightarrow> cell option list \<Rightarrow> cell list list" where
  "rows_at df k = filter (\<lambda>r. row_key join_keys (columns df) r = k) (rows df)"






section \<open>The PDF merger\<close>

text \<open>
  \<^verbatim>\<open>merge_pdfs(pdf_files, output_file)\<close> of \<^verbatim>\<open>pdf_merger.py\<close>. The file system is a
  state \<open>disk\<close> of any type. What the libraries do is a parameter of the model:
  \<open>path_exists\<close> is \<^verbatim>\<open>Path.exists\<close>, \<open>suffix\<close> and \<open>lower\<close> are pathlib's
  \<^verbatim>\<open>suffix\<close> and \<^verbatim>\<open>str.lower\<close>, \<open>append_ok\<close> tells whether
  \<^verbatim>\<open>PdfMerger.append\<close> can read the file (it raises otherwise), and \<open>pdf_write\<close> is
  \<^verbatim>\<open>PdfMerger.write\<close>: it gives the disk after the call and whether the call returned
  without raising. The merger object is the list of the files appended so far. The lines
  printed are collected in order.
\<close>

datatype pdf_message =
  NotFound string | Skipping string | Adding string | Merging string | Merged | ErrorMerging

datatype loop_exit = Completed "string list" | Returned bool | Raised

text \<open>The \<^verbatim>\<open>for\<close> loop inside the \<^verbatim>\<open>try\<close> block (lines 23 to 34).\<close>

fun merge_loop ::
  "('disk \<Rightarrow> string \<Rightarrow> bool) \<Rightarrow> (string \<Rightarrow> string) \<Rightarrow> (string \<Rightarrow> string)
     \<Rightarrow> ('disk \<Rightarrow> string \<Rightarrow> bool) \<Rightarrow> 'disk \<Rightarrow> string list \<Rightarrow> pdf_message list \<Rightarrow> string list
     \<Rightarrow> loop_exit \<times> pdf_message list" where
  "merge_loop path_exists suffix lower append_ok disk merger out [] = (Completed merger, out)"
| "merge_loop path_exists suffix lower append_ok disk merger out (pdf_file # rest) =
     (if \<not> path_exists disk pdf_file then (Returned False, out @ [NotFound pdf_file])
      else if \<not> lower (suffix pdf_file) = ''.pdf''
        then merge_loop path_exists suffix lower append_ok disk merger
               (out @ [Skipping pdf_file]) rest
      else if \<not> append_ok disk pdf_file then (Raised, out @ [Adding pdf_file])
      else merge_loop path_exists suffix lower append_ok disk (merger @ [pdf_file])
             (out @ [Adding pdf_file]) rest)"

text \<open>
  The whole function: the value returned, the disk afterwards and the lines printed. An
  exception raised in the \<^verbatim>\<open>try\<close> block is caught: the function prints the error and
  returns \<^verbatim>\<open>False\<close>.
\<close>

definition merge_pdfs ::
  "('disk \<Rightarrow> string \<Rightarrow> bool) \<Rightarrow> (string \<Rightarrow> string) \<Rightarrow> (string \<Rightarrow> string)
     \<Rightarrow> ('disk \<Rightarrow> string \<Rightarrow> bool) \<Rightarrow> ('disk \<Rightarrow> string list \<Rightarrow> string \<Rightarrow> bool \<times> 'disk)
     \<Rightarrow> 'disk \<Rightarrow> string list \<Rightarrow> string \<Rightarrow> bool \<times> 'disk \<times> pdf_message list" where
  "merge_pdfs path_exists suffix lower append_ok pdf_write disk pdf_files output_file =
     (case merge_loop path_exists suffix lower append_ok disk [] [] pdf_files of
        (Returned b, out) \<Rightarrow> (b, disk, out)
      | (Raised, out) \<Rightarrow> (False, disk, out @ [ErrorMerging])
      | (Completed merger, out) \<Rightarrow>
          (case pdf_write disk merger output_file of
             (True, disk') \<Rightarrow> (True, disk', out @ [Merging output_file, Merged])
           | (False, disk') \<Rightarrow> (False, disk', out @ [Merging output_file, ErrorMerging])))"

text \<open>
  A disk for examples: the list of the paths that exist. Writing the merged file adds
  its path, so a write is visible in the state.
\<close>

definition listed :: "string list \<Rightarrow> string \<Rightarrow> bool" where
  "listed disk path = (path \<in> set disk)"

definition write_listed :: "string list \<Rightarrow> string list \<Rightarrow> string \<Rightarrow> bool \<times> string list" where
  "write_listed disk merger output_file = (True, output_file # disk)"

section \<open>The workflow of main\<close>






definition in_order :: "cell list list \<Rightarrow> cell list list" where
  "in_order rs = rs"

definition no_format :: "rat \<Rightarrow> string" where
  "no_format q = []"



section \<open>The two core functions on Python objects\<close>

text \<open>
  In Python a frame is an object and an argument is a reference to it, so a function can
  change the frame that its caller holds. To speak about that, the world is the list of
  the frames allocated so far, a reference being an index into it, and the lines printed.
  A statement takes the world and gives the world afterwards and a value or the exception
  raised.
\<close>

datatype message = Generated nat

record world =
  objects :: "dataframe list"
  printed :: "message list"

type_synonym 'a prog = "world \<Rightarrow> (error + 'a) \<times> world"

definition pbind :: "'a prog \<Rightarrow> ('a \<Rightarrow> 'b prog) \<Rightarrow> 'b prog" where
  "pbind m f w = (case m w of (Inl e, w') \<Rightarrow> (Inl e, w') | (Inr x, w') \<Rightarrow> f x w')"

definition preturn :: "'a \<Rightarrow> 'a prog" where
  "preturn x w = (Inr x, w)"

definition raise_or :: "error + 'a \<Rightarrow> 'a prog" where
  "raise_or x w = (x, w)"

text \<open>A pandas operation that builds a frame allocates a new object.\<close>

definition new_frame :: "dataframe \<Rightarrow> nat prog" where
  "new_frame df w = (Inr (length (objects w)), w\<lparr>objects := objects w @ [df]\<rparr>)"

definition frame_at :: "nat \<Rightarrow> dataframe prog" where
  "frame_at ref w = (Inr (objects w ! ref), w)"

text \<open>\<^verbatim>\<open>df[name] = values\<close> changes the object that the reference denotes.\<close>

definition setitem :: "nat \<Rightarrow> string \<Rightarrow> cell list \<Rightarrow> unit prog" where
  "setitem ref name vals w =
     (Inr (), w\<lparr>objects := (objects w)[ref := set_column (objects w ! ref) name vals]\<rparr>)"

definition print_line :: "message \<Rightarrow> unit prog" where
  "print_line m w = (Inr (), w\<lparr>printed := printed w @ [m]\<rparr>)"

text \<open>
  \<^verbatim>\<open>calculate_adjustments\<close>, statement by statement. \<^verbatim>\<open>pd.merge\<close>, \<^verbatim>\<open>fillna\<close>,
  \<^verbatim>\<open>merged[mask]\<close> and \<^verbatim>\<open>copy\<close> each allocate; the two column assignments change the
  object \<^verbatim>\<open>merged\<close>, or the copy of the current positions.
\<close>

definition calculate_adjustments_prog ::
  "(cell list list \<Rightarrow> cell list list) \<Rightarrow> nat \<Rightarrow> nat option \<Rightarrow> nat prog" where
  "calculate_adjustments_prog row_order current_positions previous_positions =
     (case previous_positions of
        Some previous \<Rightarrow>
          pbind (frame_at current_positions) (\<lambda>c.
          pbind (frame_at previous) (\<lambda>p.
          pbind (raise_or (pd_merge_outer row_order join_keys ''_current'' ''_previous'' c p))
            (\<lambda>joined.
          pbind (new_frame joined) (\<lambda>j.
          pbind (frame_at j) (\<lambda>jf.
          pbind (new_frame (fillna0 jf)) (\<lambda>merged.
          pbind (frame_at merged) (\<lambda>m.
          pbind (raise_or (get_column m ''quantity_current'')) (\<lambda>qc.
          pbind (raise_or (get_column m ''quantity_previous'')) (\<lambda>qp.
          pbind (raise_or (series_sub qc qp)) (\<lambda>dq.
          pbind (setitem merged ''quantity_change'' dq) (\<lambda>_.
          pbind (frame_at merged) (\<lambda>m.
          pbind (raise_or (get_column m ''value_current'')) (\<lambda>vc.
          pbind (raise_or (get_column m ''value_previous'')) (\<lambda>vp.
          pbind (raise_or (series_sub vc vp)) (\<lambda>dv.
          pbind (setitem merged ''value_change'' dv) (\<lambda>_.
          pbind (frame_at merged) (\<lambda>m.
          pbind (raise_or (change_mask m)) (\<lambda>keep.
          pbind (new_frame (mask_rows m keep)) (\<lambda>selected.
          pbind (frame_at selected) (\<lambda>s.
          new_frame s))))))))))))))))))))
      | None \<Rightarrow>
          pbind (frame_at current_positions) (\<lambda>c.
          pbind (new_frame c) (\<lambda>adjustments.
          pbind (frame_at adjustments) (\<lambda>a.
          pbind (raise_or (get_column a ''quantity'')) (\<lambda>q.
          pbind (setitem adjustments ''quantity_change'' q) (\<lambda>_.
          pbind (frame_at adjustments) (\<lambda>a.
          pbind (raise_or (get_column a ''value'')) (\<lambda>v.
          pbind (setitem adjustments ''value_change'' v) (\<lambda>_.
          preturn adjustments)))))))))"

text \<open>
  \<^verbatim>\<open>generate_journal_entries\<close>: the loop reads the rows of the adjustments, the
  journal frame is a new object, and one line is printed.
\<close>

definition generate_journal_entries_prog ::
  "(rat \<Rightarrow> string) \<Rightarrow> string \<Rightarrow> nat \<Rightarrow> string option \<Rightarrow> nat prog" where
  "generate_journal_entries_prog fmt today adjustments date_arg =
     pbind (frame_at adjustments) (\<lambda>a.
     pbind (raise_or (journal_entries fmt today a date_arg)) (\<lambda>entries.
     pbind (new_frame (entries_frame entries)) (\<lambda>journal_df.
     pbind (frame_at journal_df) (\<lambda>j.
     pbind (print_line (Generated (length (rows j)))) (\<lambda>_.
     preturn journal_df)))))"

text \<open>What a call gives back: the exception, or the frame that the returned reference denotes.\<close>

definition outcome :: "(error + nat) \<times> world \<Rightarrow> error + dataframe" where
  "outcome r = (case fst r of Inl e \<Rightarrow> Inl e | Inr ref \<Rightarrow> Inr (objects (snd r) ! ref))"

text \<open>Two worlds for examples, holding the sample frames at different addresses.\<close>

definition sample_world :: world where
  "sample_world = \<lparr>objects = [sample_current, sample_previous, sample_changes], printed = []\<rparr>"

definition other_world :: world where
  "other_world = \<lparr>objects = [sample_changes, sample_previous, sample_current],
                   printed = [Generated 7]\<rparr>"
section \<open>Properties of the journal entry builder\<close>

lemma journal_row_change_record:
  assumes "change_record cols r s a q v"
  shows "journal_row fmt d cols r = Inr (if q = 0 then None else Some (spec_entry d s a q v))"
  using assms
  by (simp add: change_record_def journal_row_def series_get_def series_item_def ebind_def
      spec_entry_def)

lemma journal_loop_change_rows:
  assumes "\<forall>r \<in> set rs. \<exists>s a q v. change_record cols r s a q v"
  shows "journal_loop fmt d cols es rs =
           Inr (es @ map (row_spec_entry d cols)
                  (filter (\<lambda>r. num_of (row_get cols r ''quantity_change'') \<noteq> 0) rs))"
  using assms
proof (induction rs arbitrary: es)
  case Nil
  then show ?case by simp
next
  case (Cons r rs)
  from Cons.prems obtain s a q v where cr: "change_record cols r s a q v"
    by auto
  have row: "journal_row fmt d cols r = Inr (if q = 0 then None else Some (spec_entry d s a q v))"
    by (rule journal_row_change_record [OF cr])
  have q: "num_of (row_get cols r ''quantity_change'') = q"
    and e: "row_spec_entry d cols r = spec_entry d s a q v"
    using cr by (simp_all add: change_record_def row_spec_entry_def)
  have rest: "\<forall>r \<in> set rs. \<exists>s a q v. change_record cols r s a q v"
    using Cons.prems by simp
  show ?case
    by (cases "q = 0") (simp_all add: row q e Cons.IH [OF rest])
qed

lemma spec_entry_invariant:
  "debit_account (spec_entry d s a q v) \<noteq> credit_account (spec_entry d s a q v) \<and>
   quantity (spec_entry d s a q v) = Num \<bar>q\<bar> \<and> amount (spec_entry d s a q v) = Num \<bar>v\<bar>"
  by (simp add: spec_entry_def SecuritiesBorrowed_def PayableForSecurities_def)



text \<open>
  Claim C5. A row whose quantity change is zero emits no entry, whatever its value change
  is: the loop goes on with the list of entries unchanged.
\<close>

theorem revaluation_drop:
  assumes "row_get cols r ''quantity_change'' = Some (Num 0)"
    and "row_get cols r ''value_change'' = Some v"
  shows "journal_row fmt d cols r = Inr None \<and>
         journal_loop fmt d cols es (r # rs) = journal_loop fmt d cols es rs"
proof -
  have "journal_row fmt d cols r = Inr None"
    using assms by (simp add: journal_row_def series_item_def ebind_def)
  then show ?thesis by simp
qed

theorem revaluation_drop_witness:
  "row_get change_columns [Str ''SEC1'', Str ''ACC1'', Num 0, Num 500] ''quantity_change''
     = Some (Num 0) \<and>
   row_get change_columns [Str ''SEC1'', Str ''ACC1'', Num 0, Num 500] ''value_change''
     = Some (Num 500) \<and>
   journal_row (\<lambda>q. []) ''2024-01-02'' change_columns [Str ''SEC1'', Str ''ACC1'', Num 0, Num 500] = Inr None \<and>
   journal_entries (\<lambda>q. []) ''2024-01-03''
     \<lparr>columns = change_columns, rows = [ [Str ''SEC1'', Str ''ACC1'', Num 0, Num 500]]\<rparr>
     (Some ''2024-01-02'') = Inr []"
proof -
  have q: "row_get change_columns [Str ''SEC1'', Str ''ACC1'', Num 0, Num 500]
             ''quantity_change'' = Some (Num 0)"
    and v: "row_get change_columns [Str ''SEC1'', Str ''ACC1'', Num 0, Num 500]
             ''value_change'' = Some (Num 500)"
    by (simp_all add: change_columns_def row_get_def)
  show ?thesis
    using q v revaluation_drop [OF q v, of "\<lambda>q. []" "''2024-01-02''" "[]" "[]"]
    by (simp add: journal_entries_def)
qed

text \<open>
  Claim C6. On every frame of change records the builder returns, and every entry of its
  result has two different accounts, a non-negative quantity and a non-negative amount.
\<close>

theorem entry_invariant:
  assumes "change_frame adjustments"
  shows "\<exists>es. journal_entries fmt today adjustments date_arg = Inr es \<and>
           (\<forall>e \<in> set es. debit_account e \<noteq> credit_account e \<and>
                         (\<exists>q\<ge>0. quantity e = Num q) \<and> (\<exists>a\<ge>0. amount e = Num a))"
proof -
  have "\<forall>r \<in> set (rows adjustments). \<exists>s a q v. change_record (columns adjustments) r s a q v"
    using assms by (simp add: change_frame_def)
  then show ?thesis
    by (auto simp: journal_entries_def journal_loop_change_rows row_spec_entry_def
        spec_entry_invariant)
qed

theorem entry_invariant_witness:
  "change_frame sample_changes \<and>
   (\<exists>es. journal_entries (\<lambda>q. []) ''2024-01-02'' sample_changes None = Inr es \<and> length es = 2 \<and>
      (\<forall>e \<in> set es. debit_account e \<noteq> credit_account e \<and>
                     (\<exists>q\<ge>0. quantity e = Num q) \<and> (\<exists>a\<ge>0. amount e = Num a)))"
proof -
  have cf: "change_frame sample_changes"
    by (simp add: change_frame_def sample_changes_def change_columns_def change_record_def
        row_get_def)
  have two: "journal_entries (\<lambda>q. []) ''2024-01-02'' sample_changes None = Inr es \<Longrightarrow> length es = 2"
    for es
    by (auto simp: journal_entries_def sample_changes_def change_columns_def journal_row_def
        series_get_def series_item_def row_get_def ebind_def Let_def)
  show ?thesis
    using cf entry_invariant [OF cf, of "\<lambda>q. []" "''2024-01-02''" None] two by blast
qed


section \<open>Properties of the position reconciler\<close>

lemma set_column_rowwise:
  "set_column df name vals =
     \<lparr>columns = upd_cols (columns df) name,
      rows = map (\<lambda>(r, v). upd_row (columns df) name r v) (zip (rows df) vals)\<rparr>"
  by (simp add: set_column_def upd_cols_def upd_row_def)

lemma zip_map_self: "zip rs (map g rs) = map (\<lambda>r. (r, g r)) rs"
  by (induction rs) simp_all

lemma set_column_map:
  "set_column df name (map g (rows df)) =
     \<lparr>columns = upd_cols (columns df) name,
      rows = map (\<lambda>r. upd_row (columns df) name r (g r)) (rows df)\<rparr>"
  by (simp add: set_column_rowwise zip_map_self)

lemma map_of_zip_update_first:
  "length r = length cols \<Longrightarrow> name \<in> set cols \<Longrightarrow>
   map_of (zip cols (r[length (takeWhile (\<lambda>c. c \<noteq> name) cols) := v])) n =
     (if n = name then Some v else map_of (zip cols r) n)"
proof (induction cols arbitrary: r)
  case Nil
  then show ?case by simp
next
  case (Cons c cols)
  then obtain x xs where r: "r = x # xs" by (cases r) auto
  show ?case
  proof (cases "c = name")
    case True
    then show ?thesis by (simp add: r)
  next
    case False
    with Cons.prems have "name \<in> set cols" "length xs = length cols" by (auto simp: r)
    from Cons.IH [OF this(2) this(1)] False show ?thesis by (auto simp: r)
  qed
qed

lemma map_of_zip_append_new:
  assumes "length r = length cols" and "name \<notin> set cols"
  shows "map_of (zip (cols @ [name]) (r @ [v])) n =
           (if n = name then Some v else map_of (zip cols r) n)"
proof -
  have none: "map_of (zip cols r) name = None"
    using assms by (simp add: map_of_zip_is_None [OF assms(1) [symmetric]])
  have "map_of (zip (cols @ [name]) (r @ [v])) n = ([name \<mapsto> v] ++ map_of (zip cols r)) n"
    using assms(1) by simp
  also have "\<dots> = (if n = name then Some v else map_of (zip cols r) n)"
    using none by (simp add: map_add_def split: option.split)
  finally show ?thesis .
qed

lemma row_get_upd:
  "length r = length cols \<Longrightarrow>
   row_get (upd_cols cols name) (upd_row cols name r v) n =
     (if n = name then Some v else row_get cols r n)"
  by (cases "name \<in> set cols")
    (simp_all add: row_get_def upd_cols_def upd_row_def label_index_def
      map_of_zip_update_first map_of_zip_append_new del: zip_append map_of_append)

lemma length_upd_row:
  "length r = length cols \<Longrightarrow> length (upd_row cols name r v) = length (upd_cols cols name)"
  by (simp add: upd_cols_def upd_row_def)

lemma set_upd_cols: "set (upd_cols cols name) = insert name (set cols)"
  by (auto simp: upd_cols_def)

lemma get_column_present:
  "name \<in> set (columns df) \<Longrightarrow>
   get_column df name = Inr (map (\<lambda>r. series_get (columns df) r name NaN) (rows df))"
  by (simp add: get_column_def)

text \<open>
  Claim C4. Without a previous snapshot the reconciler returns one row for each row of the
  current snapshot, in the same order, whose quantity change is that row's quantity and
  whose value change is its value, all other fields being kept; nothing is filtered, so a
  row with quantity 0 and value 0 is kept too.
\<close>

theorem no_previous_all_new:
  assumes "well_shaped current" 
    and "''quantity'' \<in> set (columns current)" and "''value'' \<in> set (columns current)"
  shows "\<exists>adjustments. calculate_adjustments row_order current None = Inr adjustments \<and>
           list_all2 (\<lambda>r r'.
               row_get (columns adjustments) r' ''quantity_change''
                 = row_get (columns current) r ''quantity'' \<and>
               row_get (columns adjustments) r' ''value_change''
                 = row_get (columns current) r ''value'' \<and>
               same_but_changes (columns current) (columns adjustments) r r')
             (rows current) (rows adjustments)"
proof -
  let ?cs = "columns current"
  let ?cs1 = "upd_cols ?cs ''quantity_change''"
  let ?q = "\<lambda>r. series_get ?cs r ''quantity'' NaN"
  let ?u1 = "\<lambda>r. upd_row ?cs ''quantity_change'' r (?q r)"
  let ?v = "\<lambda>r. series_get ?cs1 r ''value'' NaN"
  let ?u2 = "\<lambda>r. upd_row ?cs1 ''value_change'' r (?v r)"
  let ?adj = "\<lparr>columns = upd_cols ?cs1 ''value_change'', rows = map (?u2 \<circ> ?u1) (rows current)\<rparr>"
  have len: "length r = length ?cs" if "r \<in> set (rows current)" for r
    using assms(1) that by (simp add: well_shaped_def)
  define adj1 where "adj1 = set_column current ''quantity_change'' (map ?q (rows current))"
  have adj1: "adj1 = \<lparr>columns = ?cs1, rows = map ?u1 (rows current)\<rparr>"
    unfolding adj1_def by (rule set_column_map)
  have q: "get_column current ''quantity'' = Inr (map ?q (rows current))"
    using assms(2) by (rule get_column_present)
  have "''value'' \<in> set (columns adj1)"
    using assms(3) by (simp add: adj1 set_upd_cols)
  then have "get_column adj1 ''value'' = Inr (map (\<lambda>r. series_get (columns adj1) r ''value'' NaN) (rows adj1))"
    by (rule get_column_present)
  then have v: "get_column adj1 ''value'' = Inr (map ?v (rows adj1))"
    by (simp add: adj1)
  have "set_column adj1 ''value_change'' (map ?v (rows adj1)) =
          \<lparr>columns = upd_cols (columns adj1) ''value_change'',
           rows = map (\<lambda>r. upd_row (columns adj1) ''value_change'' r (?v r)) (rows adj1)\<rparr>"
    by (rule set_column_map)
  then have adj2: "set_column adj1 ''value_change'' (map ?v (rows adj1)) = ?adj"
    by (simp add: adj1)
  have run: "calculate_adjustments row_order current None = Inr ?adj"
    by (simp add: calculate_adjustments_def q ebind_def Let_def adj1_def [symmetric] v adj2
        del: dataframe.simps)
  let ?cs2 = "upd_cols ?cs1 ''value_change''"
  let ?P = "\<lambda>r r'. row_get ?cs2 r' ''quantity_change'' = row_get ?cs r ''quantity'' \<and>
               row_get ?cs2 r' ''value_change'' = row_get ?cs r ''value'' \<and>
               same_but_changes ?cs ?cs2 r r'"
  have row: "?P r (?u2 (?u1 r))"
    if "r \<in> set (rows current)" for r
  proof -
    have l: "length r = length ?cs" by (rule len [OF that])
    from assms(2) l obtain x where x: "row_get ?cs r ''quantity'' = Some x"
      by (cases "row_get ?cs r ''quantity''") (auto simp: row_get_def)
    from assms(3) l obtain y where y: "row_get ?cs r ''value'' = Some y"
      by (cases "row_get ?cs r ''value''") (auto simp: row_get_def)
    show ?thesis
      using x y l by (simp add: row_get_upd length_upd_row series_get_def
          same_but_changes_def)
  qed
  have "list_all2 ?P (rows current) (map (?u2 \<circ> ?u1) (rows current))"
    unfolding list_all2_map2 list_all2_same using row by simp
  then have "list_all2 (\<lambda>r r'.
               row_get (columns ?adj) r' ''quantity_change'' = row_get ?cs r ''quantity'' \<and>
               row_get (columns ?adj) r' ''value_change'' = row_get ?cs r ''value'' \<and>
               same_but_changes ?cs (columns ?adj) r r')
          (rows current) (rows ?adj)"
    by simp
  with run show ?thesis by blast
qed

theorem no_previous_all_new_witness:
  "well_shaped sample_current \<and>
   ''quantity'' \<in> set (columns sample_current) \<and> ''value'' \<in> set (columns sample_current) \<and>
   (\<exists>adjustments. calculate_adjustments (\<lambda>rs. rs) sample_current None = Inr adjustments \<and>
      list_all2 (\<lambda>r r'.
          row_get (columns adjustments) r' ''quantity_change''
            = row_get (columns sample_current) r ''quantity'' \<and>
          row_get (columns adjustments) r' ''value_change''
            = row_get (columns sample_current) r ''value'' \<and>
          same_but_changes (columns sample_current) (columns adjustments) r r')
        (rows sample_current) (rows adjustments))"
proof -
  have w: "well_shaped sample_current"
    by (simp add: well_shaped_def sample_current_def)
  have q: "''quantity'' \<in> set (columns sample_current)"
    and v: "''value'' \<in> set (columns sample_current)"
    by (simp_all add: sample_current_def)
  show ?thesis
    using w q v no_previous_all_new [OF w q v, of "\<lambda>rs. rs"] by simp
qed

subsection \<open>Looking up cells in joined rows\<close>



























subsection \<open>The rows of the outer join of two snapshots\<close>










subsection \<open>The rows of the merged frame\<close>







subsection \<open>One joined row for each key\<close>








subsection \<open>The merged frame of two snapshots\<close>






subsection \<open>The reconciler with a previous snapshot\<close>






section \<open>The loader and missing fields\<close>




section \<open>Purity of the reconciler and of the entry builder\<close>

lemma pbind_raise_or:
  "pbind (raise_or x) f w = (case x of Inl e \<Rightarrow> (Inl e, w) | Inr v \<Rightarrow> f v w)"
  by (simp add: pbind_def raise_or_def split: sum.split)

lemma pbind_frame_at: "pbind (frame_at ref) f w = f (objects w ! ref) w"
  by (simp add: pbind_def frame_at_def)

lemma pbind_new_frame:
  "pbind (new_frame df) f w = f (length (objects w)) (w\<lparr>objects := objects w @ [df]\<rparr>)"
  by (simp add: pbind_def new_frame_def)

lemma pbind_setitem:
  "pbind (setitem ref name vals) f w =
     f () (w\<lparr>objects := (objects w)[ref := set_column (objects w ! ref) name vals]\<rparr>)"
  by (simp add: pbind_def setitem_def)

lemma pbind_print_line:
  "pbind (print_line m) f w = f () (w\<lparr>printed := printed w @ [m]\<rparr>)"
  by (simp add: pbind_def print_line_def)

lemmas prog_simps = pbind_raise_or pbind_frame_at pbind_new_frame pbind_setitem pbind_print_line
  preturn_def new_frame_def

lemma calculate_adjustments_prog_pure:
  "outcome (calculate_adjustments_prog row_order cur prev w) =
     calculate_adjustments row_order (objects w ! cur) (map_option (\<lambda>p. objects w ! p) prev) \<and>
   take (length (objects w)) (objects (snd (calculate_adjustments_prog row_order cur prev w)))
     = objects w \<and>
   printed (snd (calculate_adjustments_prog row_order cur prev w)) = printed w"
proof (cases prev)
  case None
  then show ?thesis
    by (simp add: calculate_adjustments_prog_def calculate_adjustments_def prog_simps outcome_def
        ebind_def Let_def nth_append split: sum.split)
next
  case (Some p)
  then show ?thesis
    by (simp add: calculate_adjustments_prog_def calculate_adjustments_def merged_changes_def
        prog_simps outcome_def ebind_def Let_def nth_append split: sum.split)
qed

lemma generate_journal_entries_prog_pure:
  "outcome (generate_journal_entries_prog fmt today adj date_arg w) =
     generate_journal_entries fmt today (objects w ! adj) date_arg \<and>
   take (length (objects w)) (objects (snd (generate_journal_entries_prog fmt today adj date_arg w)))
     = objects w"
  by (simp add: generate_journal_entries_prog_def generate_journal_entries_def prog_simps
      outcome_def ebind_def split: sum.split)

lemma journal_entries_dated:
  "journal_entries fmt today a (Some d) = journal_entries fmt today' a (Some d)"
  by (simp add: journal_entries_def)

text \<open>
  Claim C9. Two calls of the reconciler on equal snapshots return equal results, whatever
  else the two worlds hold, and so do two calls of the entry builder on equal adjustments
  with the same explicit date, whatever the clocks say. Neither call changes an object
  that existed before it, so the input snapshots and the change list are as they were.
\<close>

theorem reconciler_and_builder_pure:
  assumes "cur < length (objects w)" and "cur' < length (objects w')"
    and "objects w ! cur = objects w' ! cur'"
    and "rel_option (\<lambda>p p'. p < length (objects w) \<and> p' < length (objects w') \<and>
                             objects w ! p = objects w' ! p') prev prev'"
    and "adj < length (objects w)" and "adj' < length (objects w')"
    and "objects w ! adj = objects w' ! adj'"
  shows "outcome (calculate_adjustments_prog row_order cur prev w) =
           outcome (calculate_adjustments_prog row_order cur' prev' w') \<and>
         take (length (objects w))
           (objects (snd (calculate_adjustments_prog row_order cur prev w))) = objects w \<and>
         outcome (generate_journal_entries_prog fmt today adj (Some d) w) =
           outcome (generate_journal_entries_prog fmt today' adj' (Some d) w') \<and>
         take (length (objects w))
           (objects (snd (generate_journal_entries_prog fmt today adj (Some d) w))) = objects w"
proof -
  have "map_option (\<lambda>p. objects w ! p) prev = map_option (\<lambda>p. objects w' ! p) prev'"
    using assms(4) by (cases prev; cases prev') simp_all
  then have "outcome (calculate_adjustments_prog row_order cur prev w) =
               outcome (calculate_adjustments_prog row_order cur' prev' w')"
    using assms(3) by (simp add: calculate_adjustments_prog_pure)
  moreover
  have "outcome (generate_journal_entries_prog fmt today adj (Some d) w) =
          outcome (generate_journal_entries_prog fmt today' adj' (Some d) w')"
    using assms(7) journal_entries_dated [of fmt today "objects w' ! adj'" d today']
    by (simp add: generate_journal_entries_prog_pure generate_journal_entries_def)
  ultimately show ?thesis
    by (simp add: calculate_adjustments_prog_pure generate_journal_entries_prog_pure)
qed

theorem reconciler_and_builder_pure_witness:
  "outcome (calculate_adjustments_prog in_order 0 (Some 1) sample_world) =
     outcome (calculate_adjustments_prog in_order 2 (Some 1) other_world) \<and>
   take (length (objects sample_world))
     (objects (snd (calculate_adjustments_prog in_order 0 (Some 1) sample_world)))
     = objects sample_world \<and>
   outcome (generate_journal_entries_prog no_format ''2024-01-03'' 2 (Some ''2024-01-02'')
              sample_world) =
     outcome (generate_journal_entries_prog no_format ''2024-02-01'' 0 (Some ''2024-01-02'')
                other_world) \<and>
   take (length (objects sample_world))
     (objects (snd (generate_journal_entries_prog no_format ''2024-01-03'' 2
                      (Some ''2024-01-02'') sample_world)))
     = objects sample_world"
proof -
  have h: "(0::nat) < length (objects sample_world)" "(2::nat) < length (objects other_world)"
    "objects sample_world ! 0 = objects other_world ! 2"
    "rel_option (\<lambda>p p'. p < length (objects sample_world) \<and> p' < length (objects other_world) \<and>
                         objects sample_world ! p = objects other_world ! p') (Some 1) (Some 1)"
    "(2::nat) < length (objects sample_world)" "(0::nat) < length (objects other_world)"
    "objects sample_world ! 2 = objects other_world ! 0"
    by (simp_all add: sample_world_def other_world_def)
  show ?thesis
    by (rule reconciler_and_builder_pure [OF h])
qed

section \<open>Properties of the PDF merger\<close>

lemma merge_loop_missing:
  assumes "\<exists>f \<in> set pdf_files. \<not> path_exists disk f"
  shows "\<exists>out'. set out' \<subseteq> set out \<union> (NotFound ` set pdf_files) \<union> (Skipping ` set pdf_files)
                    \<union> (Adding ` set pdf_files) \<and>
           (merge_loop path_exists suffix lower append_ok disk merger out pdf_files
              = (Returned False, out') \<or>
            merge_loop path_exists suffix lower append_ok disk merger out pdf_files
              = (Raised, out'))"
  using assms
proof (induction pdf_files arbitrary: merger out)
  case Nil
  then show ?case by simp
next
  case (Cons f fs)
  show ?case
  proof (cases "path_exists disk f")
    case False
    then show ?thesis by auto
  next
    case True
    with Cons.prems have rest: "\<exists>f \<in> set fs. \<not> path_exists disk f" by auto
    show ?thesis
    proof (cases "lower (suffix f) = ''.pdf''")
      case False
      from Cons.IH [OF rest, where merger = merger and out = "out @ [Skipping f]"] True False
      show ?thesis by auto
    next
      case pdf: True
      show ?thesis
      proof (cases "append_ok disk f")
        case False
        with True pdf show ?thesis by auto
      next
        case ok: True
        from Cons.IH [OF rest, where merger = "merger @ [f]" and out = "out @ [Adding f]"]
          True pdf ok
        show ?thesis by auto
      qed
    qed
  qed
qed

text \<open>
  Claim C10. When some path of \<^verbatim>\<open>pdf_files\<close> does not exist, \<^verbatim>\<open>merge_pdfs\<close> returns
  \<^verbatim>\<open>False\<close> and leaves the disk as it was, whatever \<^verbatim>\<open>PdfMerger.write\<close> would do
  to it: the write step is not reached, and its message is not printed.
\<close>

theorem missing_input_never_writes:
  assumes "\<exists>f \<in> set pdf_files. \<not> path_exists disk f"
  shows "\<exists>out. merge_pdfs path_exists suffix lower append_ok pdf_write disk pdf_files output_file
                 = (False, disk, out) \<and>
               Merging output_file \<notin> set out \<and> Merged \<notin> set out"
proof -
  from merge_loop_missing [where path_exists = path_exists and disk = disk
      and pdf_files = pdf_files and merger = "[]" and out = "[]" and suffix = suffix
      and lower = lower and append_ok = append_ok, OF assms]
  obtain out' where
    sub: "set out' \<subseteq> (NotFound ` set pdf_files) \<union> (Skipping ` set pdf_files)
                       \<union> (Adding ` set pdf_files)"
    and res: "merge_loop path_exists suffix lower append_ok disk [] [] pdf_files
                = (Returned False, out') \<or>
              merge_loop path_exists suffix lower append_ok disk [] [] pdf_files = (Raised, out')"
    by auto
  from sub have no: "Merging output_file \<notin> set out'" "Merged \<notin> set out'" by auto
  from res show ?thesis
  proof
    assume "merge_loop path_exists suffix lower append_ok disk [] [] pdf_files
              = (Returned False, out')"
    with no show ?thesis by (simp add: merge_pdfs_def)
  next
    assume "merge_loop path_exists suffix lower append_ok disk [] [] pdf_files = (Raised, out')"
    with no show ?thesis by (simp add: merge_pdfs_def)
  qed
qed

theorem missing_input_never_writes_witness:
  "(\<exists>f \<in> set [''a.pdf'', ''b.pdf'']. \<not> listed [''a.pdf''] f) \<and>
   merge_pdfs listed (\<lambda>p. drop (length p - 4) p) (\<lambda>s. s) (\<lambda>d p. True) write_listed
     [''a.pdf''] [''a.pdf'', ''b.pdf''] ''out.pdf''
     = (False, [''a.pdf''], [Adding ''a.pdf'', NotFound ''b.pdf''])"
proof -
  have h: "\<exists>f \<in> set [''a.pdf'', ''b.pdf'']. \<not> listed [''a.pdf''] f"
    by (simp add: listed_def)
  show ?thesis
    using h missing_input_never_writes [where path_exists = listed and disk = "[''a.pdf'']"
        and pdf_files = "[''a.pdf'', ''b.pdf'']" and suffix = "\<lambda>p. drop (length p - 4) p"
        and lower = "\<lambda>s. s" and append_ok = "\<lambda>d p. True" and pdf_write = write_listed
        and output_file = "''out.pdf''", OF h]
    by (simp add: merge_pdfs_def listed_def)
qed

end
